theory Spec2Isabelle
  imports Main
begin

section \<open>The auto-materialize daemon status badge\<close>

text \<open>
  The component \<^verbatim>\<open>AutomaterializeDaemonStatusTag\<close> of
  \<^verbatim>\<open>ui-core/src/assets/AutomaterializeDaemonStatusTag.tsx\<close> is a React function
  component without props. It calls the hook \<^verbatim>\<open>useAutomaterializeDaemonStatus\<close>
  once, destructures the field \<^verbatim>\<open>paused\<close> of the object that the hook returns, and
  returns one JSX tree: a \<^verbatim>\<open>Tooltip\<close> around a \<^verbatim>\<open>Link\<close> around a \<^verbatim>\<open>Tag\<close>.
  It calls no state hook of its own.
\<close>

subsection \<open>The object returned by the status hook\<close>

text \<open>
  Modelled from the spec: the module \<^verbatim>\<open>./useAutomaterializeDaemonStatus\<close> is
  imported by the component and is not part of the sources at hand. The spec says that
  the status collaborator returns an object with a field \<^verbatim>\<open>paused: boolean\<close>. The
  object is an extensible record: whatever else the hook returns sits in the extension
  part, which the component never reads.
\<close>

record daemon_status =
  paused :: bool

subsection \<open>The JSX elements and their props\<close>

text \<open>
  Each JSX element is the record of the props the component passes to it. String
  literals of the source are strings; the style object literal is the list of its
  key-value pairs; the child of an element is a field of its record.
\<close>

text \<open>\<^verbatim>\<open><Tag icon=... intent=...>{text}</Tag>\<close>\<close>

record tag_element =
  icon :: string
  intent :: string
  tag_children :: string

text \<open>\<^verbatim>\<open><Link to=... style=...><Tag/></Link>\<close>\<close>

record link_element =
  to :: string
  style :: "(string \<times> string) list"
  link_children :: tag_element

text \<open>\<^verbatim>\<open><Tooltip content=... canShow=...><Link/></Tooltip>\<close>\<close>

record tooltip_element =
  content :: string
  canShow :: bool
  tooltip_children :: link_element

subsection \<open>The component\<close>

text \<open>
  The argument is the object returned by the call of \<^verbatim>\<open>useAutomaterializeDaemonStatus()\<close>
  in the first line of the component's body.
\<close>

definition AutomaterializeDaemonStatusTag :: "'a daemon_status_scheme \<Rightarrow> tooltip_element" where
  "AutomaterializeDaemonStatusTag status =
     (let paused = daemon_status.paused status in
      \<lparr> content =
          (if paused
           then ''Automation condition evaluation is paused. New materializations will not be triggered by automation conditions.''
           else ''''),
        canShow = paused,
        tooltip_children =
          \<lparr> to = ''/health'',
            style = [(''outline'', ''none'')],
            link_children =
              \<lparr> icon = (if paused then ''toggle_off'' else ''toggle_on''),
                intent = (if paused then ''warning'' else ''success''),
                tag_children = (if paused then ''Auto-materialize off'' else ''Auto-materialize on'') \<rparr> \<rparr> \<rparr>)"

text \<open>The \<^verbatim>\<open>Link\<close> and the \<^verbatim>\<open>Tag\<close> inside a rendered tree.\<close>

abbreviation rendered_link :: "tooltip_element \<Rightarrow> link_element" where
  "rendered_link e \<equiv> tooltip_children e"

abbreviation rendered_tag :: "tooltip_element \<Rightarrow> tag_element" where
  "rendered_tag e \<equiv> link_children (tooltip_children e)"

subsection \<open>Renders over time\<close>

text \<open>
  React calls the component function once for every render. Between two renders, the only
  memory a function component has is the hook state that React keeps for it: a hook call
  reads that state and may change it. The component's body makes one hook call,
  \<^verbatim>\<open>useAutomaterializeDaemonStatus()\<close>, and no other (no \<^verbatim>\<open>useState\<close>, \<^verbatim>\<open>useRef\<close> or
  \<^verbatim>\<open>useReducer\<close>, no variable outside the function). So a render is a computation on the
  hook state \<open>'s\<close>: the hook, a parameter, maps the state before the call to its result
  and the state after it, and the component builds its tree from the result.
\<close>

definition AutomaterializeDaemonStatusTag_render ::
  "('s \<Rightarrow> 'a daemon_status_scheme \<times> 's) \<Rightarrow> 's \<Rightarrow> tooltip_element \<times> 's" where
  "AutomaterializeDaemonStatusTag_render useAutomaterializeDaemonStatus store =
     (case useAutomaterializeDaemonStatus store of
        (status, store') \<Rightarrow> (AutomaterializeDaemonStatusTag status, store'))"

text \<open>
  The trees of \<open>n\<close> renders in a row, each one starting in the hook state that the render
  before it left.
\<close>

fun successive_renders ::
  "('s \<Rightarrow> 'a daemon_status_scheme \<times> 's) \<Rightarrow> 's \<Rightarrow> nat \<Rightarrow> tooltip_element list" where
  "successive_renders hook store 0 = []"
| "successive_renders hook store (Suc n) =
     (case AutomaterializeDaemonStatusTag_render hook store of
        (tree, store') \<Rightarrow> tree # successive_renders hook store' n)"

text \<open>The values of \<^verbatim>\<open>paused\<close> that the hook reports in these \<open>n\<close> renders.\<close>

fun successive_paused ::
  "('s \<Rightarrow> 'a daemon_status_scheme \<times> 's) \<Rightarrow> 's \<Rightarrow> nat \<Rightarrow> bool list" where
  "successive_paused hook store 0 = []"
| "successive_paused hook store (Suc n) =
     (case hook store of
        (status, store') \<Rightarrow> paused status # successive_paused hook store' n)"

section \<open>Properties\<close>

text \<open>
  C1: for every boolean \<^verbatim>\<open>paused\<close>, the Tooltip gets \<^verbatim>\<open>canShow\<close> equal to
  \<^verbatim>\<open>paused\<close>, and its \<^verbatim>\<open>content\<close> is the fixed warning sentence when \<^verbatim>\<open>paused\<close> is
  true and the empty string when it is false.
\<close>

theorem tooltip_canShow_and_content:
  "canShow (AutomaterializeDaemonStatusTag status) = paused status \<and>
   content (AutomaterializeDaemonStatusTag status) =
     (if paused status
      then ''Automation condition evaluation is paused. New materializations will not be triggered by automation conditions.''
      else '''')"
  by (simp add: AutomaterializeDaemonStatusTag_def Let_def)

text \<open>
  C2: for every boolean \<^verbatim>\<open>paused\<close>, the label (the text inside the Tag) is
  "Auto-materialize off" if and only if \<^verbatim>\<open>paused\<close> is true, and it is
  "Auto-materialize on" if and only if \<^verbatim>\<open>paused\<close> is false.
\<close>

theorem label_off_iff_paused:
  "(tag_children (rendered_tag (AutomaterializeDaemonStatusTag status)) = ''Auto-materialize off'')
     = paused status \<and>
   (tag_children (rendered_tag (AutomaterializeDaemonStatusTag status)) = ''Auto-materialize on'')
     = (\<not> paused status)"
  by (simp add: AutomaterializeDaemonStatusTag_def Let_def)

text \<open>
  C3: for every boolean \<^verbatim>\<open>paused\<close>, the icon of the Tag is \<^verbatim>\<open>toggle_off\<close> when
  \<^verbatim>\<open>paused\<close> is true and \<^verbatim>\<open>toggle_on\<close> when it is false.
\<close>

theorem icon_by_paused:
  "icon (rendered_tag (AutomaterializeDaemonStatusTag status)) =
     (if paused status then ''toggle_off'' else ''toggle_on'')"
  by (simp add: AutomaterializeDaemonStatusTag_def Let_def)

text \<open>
  C4: for every boolean \<^verbatim>\<open>paused\<close>, the intent of the Tag is \<^verbatim>\<open>warning\<close> when
  \<^verbatim>\<open>paused\<close> is true and \<^verbatim>\<open>success\<close> when it is false.
\<close>

theorem intent_by_paused:
  "intent (rendered_tag (AutomaterializeDaemonStatusTag status)) =
     (if paused status then ''warning'' else ''success'')"
  by (simp add: AutomaterializeDaemonStatusTag_def Let_def)

text \<open>
  C5: for every boolean \<^verbatim>\<open>paused\<close>, the \<^verbatim>\<open>to\<close> prop of the rendered Link is the
  literal path \<^verbatim>\<open>/health\<close>, whatever the value of \<^verbatim>\<open>paused\<close>.
\<close>

theorem link_target_health:
  "to (rendered_link (AutomaterializeDaemonStatusTag status)) = ''/health''"
  by (simp add: AutomaterializeDaemonStatusTag_def Let_def)

text \<open>
  C6: the two end-to-end scenarios. With \<^verbatim>\<open>paused = true\<close> the label is
  "Auto-materialize off", the icon \<^verbatim>\<open>toggle_off\<close>, the intent \<^verbatim>\<open>warning\<close>, the tooltip
  is shown with the warning sentence, and the link goes to \<^verbatim>\<open>/health\<close>. With
  \<^verbatim>\<open>paused = false\<close> the label is "Auto-materialize on", the icon \<^verbatim>\<open>toggle_on\<close>, the
  intent \<^verbatim>\<open>success\<close>, the tooltip is not shown and its text is empty, and the link goes
  to \<^verbatim>\<open>/health\<close>. The other fields of the hook's result are arbitrary.
\<close>

theorem scenarios_paused_true_false:
  fixes rest :: 'a
  defines "off \<equiv> AutomaterializeDaemonStatusTag \<lparr> paused = True, \<dots> = rest \<rparr>"
      and "on \<equiv> AutomaterializeDaemonStatusTag \<lparr> paused = False, \<dots> = rest \<rparr>"
  shows "tag_children (rendered_tag off) = ''Auto-materialize off''
       \<and> icon (rendered_tag off) = ''toggle_off''
       \<and> intent (rendered_tag off) = ''warning''
       \<and> canShow off = True
       \<and> content off = ''Automation condition evaluation is paused. New materializations will not be triggered by automation conditions.''
       \<and> to (rendered_link off) = ''/health''
       \<and> tag_children (rendered_tag on) = ''Auto-materialize on''
       \<and> icon (rendered_tag on) = ''toggle_on''
       \<and> intent (rendered_tag on) = ''success''
       \<and> canShow on = False
       \<and> content on = ''''
       \<and> to (rendered_link on) = ''/health''"
  by (simp add: off_def on_def AutomaterializeDaemonStatusTag_def Let_def)

subsection \<open>A run of renders\<close>

lemma length_successive_paused: "length (successive_paused hook store n) = n"
  by (induction n arbitrary: store) (simp_all split: prod.splits)

lemma tree_of_paused_field:
  "AutomaterializeDaemonStatusTag status = AutomaterializeDaemonStatusTag \<lparr> paused = paused status \<rparr>"
  by (simp add: AutomaterializeDaemonStatusTag_def Let_def)

lemma successive_renders_map:
  "successive_renders hook store n =
     map (\<lambda>p. AutomaterializeDaemonStatusTag \<lparr> paused = p \<rparr>) (successive_paused hook store n)"
proof (induction n arbitrary: store)
  case 0
  show ?case by simp
next
  case (Suc n)
  obtain status store' where h: "hook store = (status, store')"
    by (cases "hook store")
  have "successive_renders hook store (Suc n) =
          AutomaterializeDaemonStatusTag status # successive_renders hook store' n"
    by (simp add: AutomaterializeDaemonStatusTag_render_def h)
  also have "\<dots> = AutomaterializeDaemonStatusTag \<lparr> paused = paused status \<rparr>
                 # map (\<lambda>p. AutomaterializeDaemonStatusTag \<lparr> paused = p \<rparr>)
                     (successive_paused hook store' n)"
    using Suc.IH [of store'] tree_of_paused_field [of status] by simp
  finally show ?case by (simp add: h)
qed

text \<open>
  C7: the render is a deterministic function of the current boolean \<^verbatim>\<open>paused\<close>, and no
  internal state is carried across renders. For every hook and every hook state before a
  render: the tree of the render is the tree of the value of \<^verbatim>\<open>paused\<close> that the hook
  reports in this render, whatever the state is; the state after the render is the one
  that the hook call left, so the component stores nothing of its own; in a run of \<open>n\<close>
  renders the trees are, render by render, the trees of the reported values of
  \<^verbatim>\<open>paused\<close>; and two renders of a run in which the hook reports the same value of
  \<^verbatim>\<open>paused\<close> give the same tree, that is the same label, icon, intent, tooltip content,
  tooltip visibility and link target, whatever happened in the renders before them.
\<close>

theorem render_is_function_of_current_paused:
  fixes hook :: "'s \<Rightarrow> 'a daemon_status_scheme \<times> 's"
  shows "fst (AutomaterializeDaemonStatusTag_render hook store)
           = AutomaterializeDaemonStatusTag \<lparr> paused = paused (fst (hook store)) \<rparr>
       \<and> snd (AutomaterializeDaemonStatusTag_render hook store) = snd (hook store)
       \<and> successive_renders hook store n
           = map (\<lambda>p. AutomaterializeDaemonStatusTag \<lparr> paused = p \<rparr>)
               (successive_paused hook store n)
       \<and> (\<forall>i<n. \<forall>j<n.
             successive_paused hook store n ! i = successive_paused hook store n ! j \<longrightarrow>
             successive_renders hook store n ! i = successive_renders hook store n ! j)"
proof -
  have tree: "fst (AutomaterializeDaemonStatusTag_render hook store)
             = AutomaterializeDaemonStatusTag \<lparr> paused = paused (fst (hook store)) \<rparr>"
  proof (cases "hook store")
    case (Pair status store')
    then show ?thesis
      using tree_of_paused_field [of status]
      by (simp add: AutomaterializeDaemonStatusTag_render_def)
  qed
  have state: "snd (AutomaterializeDaemonStatusTag_render hook store) = snd (hook store)"
    by (simp add: AutomaterializeDaemonStatusTag_render_def split: prod.splits)
  have run: "successive_renders hook store n
             = map (\<lambda>p. AutomaterializeDaemonStatusTag \<lparr> paused = p \<rparr>)
                 (successive_paused hook store n)"
    by (rule successive_renders_map)
  have two: "\<forall>i<n. \<forall>j<n.
             successive_paused hook store n ! i = successive_paused hook store n ! j \<longrightarrow>
             successive_renders hook store n ! i = successive_renders hook store n ! j"
    by (simp add: run length_successive_paused)
  from tree state run two show ?thesis by blast
qed

text \<open>
  A hook whose state counts the renders and that reports \<^verbatim>\<open>paused\<close> in every other one:
  in three renders from the count 0 it reports true, false, true; the first and the third
  tree are the same, and the second differs from them.
\<close>

theorem render_is_function_of_current_paused_witness:
  "successive_paused (\<lambda>k::nat. (\<lparr> paused = even k \<rparr>, Suc k)) 0 3 = [True, False, True]
   \<and> successive_renders (\<lambda>k::nat. (\<lparr> paused = even k \<rparr>, Suc k)) 0 3 ! 0
       = successive_renders (\<lambda>k::nat. (\<lparr> paused = even k \<rparr>, Suc k)) 0 3 ! 2
   \<and> successive_renders (\<lambda>k::nat. (\<lparr> paused = even k \<rparr>, Suc k)) 0 3 ! 0
       \<noteq> successive_renders (\<lambda>k::nat. (\<lparr> paused = even k \<rparr>, Suc k)) 0 3 ! 1"
proof -
  let ?hook = "\<lambda>k::nat. (\<lparr> paused = even k \<rparr>, Suc k)"
  have reported: "successive_paused ?hook 0 3 = [True, False, True]"
    by (simp add: numeral_3_eq_3)
  have same: "successive_paused ?hook 0 3 ! 0 = successive_paused ?hook 0 3 ! 2"
    by (simp add: reported)
  have run: "successive_renders ?hook 0 3
               = map (\<lambda>p. AutomaterializeDaemonStatusTag \<lparr> paused = p \<rparr>)
                   (successive_paused ?hook 0 3)"
    and two: "\<forall>i<3. \<forall>j<3.
             successive_paused ?hook 0 3 ! i = successive_paused ?hook 0 3 ! j \<longrightarrow>
             successive_renders ?hook 0 3 ! i = successive_renders ?hook 0 3 ! j"
    using render_is_function_of_current_paused [of ?hook 0 3] by blast+
  from two same have eq: "successive_renders ?hook 0 3 ! 0 = successive_renders ?hook 0 3 ! 2"
    by simp
  have neq: "successive_renders ?hook 0 3 ! 0 \<noteq> successive_renders ?hook 0 3 ! 1"
    by (simp add: run reported AutomaterializeDaemonStatusTag_def)
  from reported eq neq show ?thesis by blast
qed

text \<open>
  C8: for every boolean \<^verbatim>\<open>paused\<close>, the rendered Link carries the style
  \<^verbatim>\<open>outline: none\<close>, which suppresses the default focus ring; it is the only entry of the
  style object.
\<close>

theorem link_style_outline_none:
  "map_of (style (rendered_link (AutomaterializeDaemonStatusTag status))) ''outline'' = Some ''none''
   \<and> style (rendered_link (AutomaterializeDaemonStatusTag status)) = [(''outline'', ''none'')]"
  by (simp add: AutomaterializeDaemonStatusTag_def Let_def)

text \<open>
  C9: the five outputs that vary do so together. The intent is \<^verbatim>\<open>warning\<close> if and only if
  the icon is \<^verbatim>\<open>toggle_off\<close>, if and only if the label is "Auto-materialize off", if and
  only if \<^verbatim>\<open>canShow\<close> is true, if and only if the tooltip content is not empty. In
  particular the intent \<^verbatim>\<open>warning\<close> never comes with the icon \<^verbatim>\<open>toggle_on\<close>, and
  \<^verbatim>\<open>canShow\<close> is never true with an empty content.
\<close>

theorem outputs_co_vary:
  fixes status :: "'a daemon_status_scheme"
  defines "e \<equiv> AutomaterializeDaemonStatusTag status"
  shows "(intent (rendered_tag e) = ''warning'') = (icon (rendered_tag e) = ''toggle_off'')
       \<and> (icon (rendered_tag e) = ''toggle_off'')
           = (tag_children (rendered_tag e) = ''Auto-materialize off'')
       \<and> (tag_children (rendered_tag e) = ''Auto-materialize off'') = canShow e
       \<and> canShow e = (content e \<noteq> '''')
       \<and> \<not> (intent (rendered_tag e) = ''warning'' \<and> icon (rendered_tag e) = ''toggle_on'')
       \<and> \<not> (canShow e \<and> content e = '''')"
  by (simp add: e_def AutomaterializeDaemonStatusTag_def Let_def)

text \<open>
  C10: the rendered tree depends on the hook's result through its field \<^verbatim>\<open>paused\<close>
  only. Two results that agree on \<^verbatim>\<open>paused\<close> give the same tree, whatever their other
  fields are (the two may even carry other fields of different types).
\<close>

theorem render_ignores_other_fields:
  fixes s1 :: "'a daemon_status_scheme" and s2 :: "'b daemon_status_scheme"
  assumes "paused s1 = paused s2"
  shows "AutomaterializeDaemonStatusTag s1 = AutomaterializeDaemonStatusTag s2"
  using assms by (simp add: AutomaterializeDaemonStatusTag_def Let_def)

theorem render_ignores_other_fields_witness:
  "paused \<lparr> paused = True, \<dots> = ''loading'' \<rparr> = paused \<lparr> paused = True, \<dots> = ''ready'' \<rparr>
   \<and> \<lparr> paused = True, \<dots> = ''loading'' \<rparr> \<noteq> \<lparr> paused = True, \<dots> = ''ready'' \<rparr>
   \<and> AutomaterializeDaemonStatusTag \<lparr> paused = True, \<dots> = ''loading'' \<rparr>
       = AutomaterializeDaemonStatusTag \<lparr> paused = True, \<dots> = ''ready'' \<rparr>"
proof -
  have agree: "paused \<lparr> paused = True, \<dots> = ''loading'' \<rparr> = paused \<lparr> paused = True, \<dots> = ''ready'' \<rparr>"
    by simp
  have differ: "\<lparr> paused = True, \<dots> = ''loading'' \<rparr> \<noteq> \<lparr> paused = True, \<dots> = ''ready'' \<rparr>"
    by simp
  from agree differ render_ignores_other_fields [OF agree] show ?thesis
    by blast
qed

end
